theory Spec2Isabelle
  imports Main "HOL-Library.Sublist"
begin

section \<open>Text-to-SQL notebook: channel routing, catalog harvesting, crawler polling\<close>

text \<open>
  A shallow embedding of the code cells 7, 9, 10, 11 and 12 of
  \<^verbatim>\<open>mda_text_to_sql_langchain_bedrock.ipynb\<close>. The notebook is glue code around
  external services (AWS Glue, Bedrock through LangChain, Athena). Those services are not
  modelled: they are the fields of a record \<open>world\<close>, arbitrary functions that either
  answer or raise. Everything the notebook's own statements do (branching on the completion,
  dictionary lookups, string accumulation, printing, sleeping, raising) is modelled.
\<close>

subsection \<open>Exceptions\<close>

text \<open>
  \<open>Exception m\<close> is \<^verbatim>\<open>raise Exception(m)\<close>, written in the notebook itself.
  \<open>UnboundLocalError v\<close> is Python reading the local variable \<open>v\<close> before any
  assignment to it. \<open>KeyError k\<close> is \<^verbatim>\<open>d[k]\<close> on a dictionary without
  the key \<open>k\<close>. \<open>ServiceError m\<close> is any exception raised inside an external
  collaborator (boto3, LangChain, the SQL chain).
\<close>

datatype error =
    Exception string
  | UnboundLocalError string
  | KeyError string
  | ServiceError string

subsection \<open>Strings\<close>

definition nl :: string where
  "nl = [CHR 0x0A]"

definition quote :: string where
  "quote = [CHR 0x27]"

text \<open>Python's \<^verbatim>\<open>sub in text\<close> on strings: \<open>sub\<close> occurs in \<open>text\<close> as a contiguous run.\<close>

fun py_in :: "string \<Rightarrow> string \<Rightarrow> bool" where
  "py_in sub [] = (sub = [])"
| "py_in sub (c # cs) = (prefix sub (c # cs) \<or> py_in sub cs)"

text \<open>Python's \<^verbatim>\<open>text.startswith(p)\<close>.\<close>

definition startswith :: "string \<Rightarrow> string \<Rightarrow> bool" where
  "startswith text p = prefix p text"

subsection \<open>Data returned by the external services\<close>

text \<open>
  The handle \<^verbatim>\<open>SQLDatabase(engine_athena)\<close> of code cell 8, identified by the
  connection string of its engine.
\<close>

datatype sqldb = SQLDatabase string

text \<open>
  The dictionaries of a \<^verbatim>\<open>get_tables\<close> response. Every key the notebook indexes
  is optional here, since \<^verbatim>\<open>d[k]\<close> raises when the key is absent;
  \<^verbatim>\<open>Parameters\<close> is a free-form dictionary of strings.
\<close>

record column =
  c_Name :: "string option"

record storage_descriptor =
  sd_Location :: "string option"
  sd_Columns :: "column list option"

record table =
  t_DatabaseName :: "string option"
  t_Name :: "string option"
  t_StorageDescriptor :: "storage_descriptor option"
  t_Parameters :: "(string \<rightharpoonup> string) option"

record get_tables_response =
  TableList :: "table list"

text \<open>The part of a \<^verbatim>\<open>get_crawler\<close> response that code cell 7 reads.\<close>

record crawler =
  State :: string

record get_crawler_response =
  Crawler :: crawler

subsection \<open>The external services and the notebook's state\<close>

text \<open>
  Each service either raises (\<open>Inl\<close>, with a description) or answers (\<open>Inr\<close>).
  \<^item> \<open>boto3_client service\<close>: \<^verbatim>\<open>boto3.client(service)\<close>, which builds a client object
    or raises (for instance when no region is configured).
  \<^item> \<open>start_crawler name\<close>: \<^verbatim>\<open>client.start_crawler(Name=name)\<close>; the response is not read.
  \<^item> \<open>get_crawler name n\<close>: the call \<^verbatim>\<open>client.get_crawler(Name=name)\<close> made after
    \<open>n\<close> earlier such calls.
  \<^item> \<open>get_tables db\<close>: \<^verbatim>\<open>glue_client.get_tables(DatabaseName=db)\<close>.
  \<^item> \<open>llm_chain_run template query\<close>: building the \<^verbatim>\<open>PromptTemplate\<close> and the
    \<^verbatim>\<open>LLMChain\<close> from \<open>template\<close> and calling \<^verbatim>\<open>llm_chain.run(query)\<close>.
  \<^item> \<open>db_chain_run db template query\<close>: \<^verbatim>\<open>SQLDatabaseChain.from_llm(llm, db, prompt=...)\<close>
    followed by \<^verbatim>\<open>db_chain.run(query)\<close>.
\<close>

record world =
  boto3_client :: "string \<Rightarrow> string + unit"
  start_crawler :: "string \<Rightarrow> string + unit"
  get_crawler :: "string \<Rightarrow> nat \<Rightarrow> string + get_crawler_response"
  get_tables :: "string \<Rightarrow> string + get_tables_response"
  llm_chain_run :: "string \<Rightarrow> string \<Rightarrow> string + string"
  db_chain_run :: "sqldb \<Rightarrow> string \<Rightarrow> string \<Rightarrow> string + string"

text \<open>
  The module-level names the modelled cells read or write, and the effects they leave:
  the lines printed, the seconds slept in \<^verbatim>\<open>time.sleep\<close>, and the number of
  \<^verbatim>\<open>get_crawler\<close> calls made so far.
\<close>

record notebook =
  glue_crawler_name :: string
  gdc :: "string list"
  dbathena :: sqldb
  glue_catalog :: string
  stdout :: "string list"
  slept :: nat
  polls :: nat

definition py_print :: "string \<Rightarrow> notebook \<Rightarrow> notebook" where
  "py_print line s = s\<lparr>stdout := stdout s @ [line]\<rparr>"

subsection \<open>Code cell 10: \<^verbatim>\<open>identify_channel\<close>\<close>

text \<open>
  The template: two triple-quoted literals around \<^verbatim>\<open>glue_catalog\<close>. In the source an
  escaped \<^verbatim>\<open>\n\<close> at the end of a line is followed by the line break itself.
\<close>

definition prompt_template_titan :: "string \<Rightarrow> string" where
  "prompt_template_titan catalog =
     ''You are a SQL expert. Convert the below natural language question into a valid SQL statement. The schema has the structure below:''
       @ nl @ nl
     @ ''     '' @ catalog @ '' '' @ nl
     @ ''     '' @ nl @ nl
     @ ''     Here is the question to be answered:'' @ nl @ nl
     @ ''     {query}'' @ nl
     @ ''     '' @ nl @ nl
     @ ''     Provide the SQL query that would retrieve the data based on the natural language request.'' @ nl @ nl
     @ ''     '' @ nl
     @ ''     ''"

text \<open>
  \<^verbatim>\<open>return channel, db\<close>: both are local variables of \<^verbatim>\<open>identify_channel\<close>
  (each is assigned somewhere in its body), \<open>None\<close> while unassigned. The tuple is
  evaluated left to right.
\<close>

definition return_channel_db ::
  "string option \<Rightarrow> sqldb option \<Rightarrow> notebook \<Rightarrow> (error + string \<times> sqldb) \<times> notebook" where
  "return_channel_db channel db s =
     (case channel of
        None \<Rightarrow> (Inl (UnboundLocalError ''channel''), s)
      | Some c \<Rightarrow>
          (case db of
             None \<Rightarrow> (Inl (UnboundLocalError ''db''), s)
           | Some d \<Rightarrow> (Inr (c, d), s)))"

definition identify_channel ::
  "world \<Rightarrow> string \<Rightarrow> notebook \<Rightarrow> (error + string \<times> sqldb) \<times> notebook" where
  "identify_channel w query s =
     (let prompt_template = prompt_template_titan (glue_catalog s) in
      case llm_chain_run w prompt_template query of
        Inl m \<Rightarrow> (Inl (ServiceError m), s)
      | Inr generated_texts \<Rightarrow>
          if py_in ''s3'' generated_texts then
            return_channel_db (Some ''db'') (Some (dbathena s))
              (py_print ''SET database to athena'' s)
          else if py_in ''api'' generated_texts then
            return_channel_db (Some ''api'') None
              (py_print ''SET database to weather api'' s)
          else
            (Inl (Exception
               ''User question cannot be answered by any of the channels mentioned in the catalog''), s))"

subsection \<open>Code cell 11: \<^verbatim>\<open>run_query\<close>\<close>

definition DEFAULT_TEMPLATE :: string where
  "DEFAULT_TEMPLATE =
     nl
     @ ''    Here is a schema of a table:'' @ nl
     @ ''    <schema>'' @ nl
     @ ''    {table_info}'' @ nl
     @ ''    </schema>       '' @ nl
     @ ''    Run a SQL query to answer the question. Follow this format:'' @ nl
     @ ''    '' @ nl
     @ ''    SQLQuery: the correct SQL query. For example: select count ( * )  from s3_library_data where genre = ''
       @ quote @ ''Novel'' @ quote @ nl
     @ ''    SQLResult: the result of the SQL query.'' @ nl
     @ ''    Answer: convert the SQLResult to a grammatically correct sentence.'' @ nl
     @ ''    '' @ nl
     @ ''    Here is question: {input}''"

text \<open>
  The statements of \<^verbatim>\<open>run_query\<close> after its first line, as a function of the pair
  that \<^verbatim>\<open>identify_channel\<close> returned.
\<close>

definition run_query_dispatch ::
  "world \<Rightarrow> string \<Rightarrow> string \<times> sqldb \<Rightarrow> notebook \<Rightarrow> (error + string) \<times> notebook" where
  "run_query_dispatch w query cd s =
     (let channel = fst cd; db = snd cd in
      if channel = ''db'' then
        (case db_chain_run w db DEFAULT_TEMPLATE query of
           Inl m \<Rightarrow> (Inl (ServiceError m), s)
         | Inr response \<Rightarrow> (Inr response, s))
      else (Inl (Exception ''Unlisted channel. Check your unified catalog''), s))"

definition run_query :: "world \<Rightarrow> string \<Rightarrow> notebook \<Rightarrow> (error + string) \<times> notebook" where
  "run_query w query s =
     (case identify_channel w query s of
        (Inl e, s') \<Rightarrow> (Inl e, s')
      | (Inr cd, s') \<Rightarrow> run_query_dispatch w query cd s')"

subsection \<open>Code cell 12: one query\<close>


subsection \<open>Code cell 9: \<^verbatim>\<open>parse_catalog\<close>\<close>

text \<open>
  The innermost loop, over the columns of one table. The right-hand side of the tuple
  assignment reads \<^verbatim>\<open>tables['DatabaseName']\<close>, \<^verbatim>\<open>tables['Name']\<close> and
  \<^verbatim>\<open>columns['Name']\<close> in this order.
\<close>

fun column_loop :: "table \<Rightarrow> column list \<Rightarrow> string \<Rightarrow> error + string" where
  "column_loop tables [] columns_str = Inr columns_str"
| "column_loop tables (columns # rest) columns_str =
     (case t_DatabaseName tables of
        None \<Rightarrow> Inl (KeyError ''DatabaseName'')
      | Some dbname \<Rightarrow>
          (case t_Name tables of
             None \<Rightarrow> Inl (KeyError ''Name'')
           | Some tblname \<Rightarrow>
               (case c_Name columns of
                  None \<Rightarrow> Inl (KeyError ''Name'')
                | Some colname \<Rightarrow>
                    column_loop tables rest
                      (columns_str @ nl @ dbname @ ''|'' @ tblname @ ''|'' @ colname))))"

text \<open>
  The \<^verbatim>\<open>if\<close>/\<^verbatim>\<open>else\<close> that sets \<^verbatim>\<open>classification\<close>. The value is never
  read afterwards, but computing it can raise.
\<close>

definition classification_of :: "table \<Rightarrow> error + string" where
  "classification_of tables =
     (case t_StorageDescriptor tables of
        None \<Rightarrow> Inl (KeyError ''StorageDescriptor'')
      | Some sd \<Rightarrow>
          (case sd_Location sd of
             None \<Rightarrow> Inl (KeyError ''Location'')
           | Some location \<Rightarrow>
               if startswith location ''s3'' then Inr ''s3''
               else
                 (case t_Parameters tables of
                    None \<Rightarrow> Inl (KeyError ''Parameters'')
                  | Some parameters \<Rightarrow>
                      (case parameters ''classification'' of
                         None \<Rightarrow> Inl (KeyError ''classification'')
                       | Some c \<Rightarrow> Inr c))))"

text \<open>The header of the column loop: \<^verbatim>\<open>tables['StorageDescriptor']['Columns']\<close>.\<close>

definition columns_of :: "table \<Rightarrow> error + column list" where
  "columns_of tables =
     (case t_StorageDescriptor tables of
        None \<Rightarrow> Inl (KeyError ''StorageDescriptor'')
      | Some sd \<Rightarrow>
          (case sd_Columns sd of
             None \<Rightarrow> Inl (KeyError ''Columns'')
           | Some cols \<Rightarrow> Inr cols))"

fun table_loop :: "table list \<Rightarrow> string \<Rightarrow> error + string" where
  "table_loop [] columns_str = Inr columns_str"
| "table_loop (tables # rest) columns_str =
     (case classification_of tables of
        Inl e \<Rightarrow> Inl e
      | Inr classification \<Rightarrow>
          (case columns_of tables of
             Inl e \<Rightarrow> Inl e
           | Inr cols \<Rightarrow>
               (case column_loop tables cols columns_str of
                  Inl e \<Rightarrow> Inl e
                | Inr columns_str' \<Rightarrow> table_loop rest columns_str')))"

fun db_loop :: "world \<Rightarrow> string list \<Rightarrow> string \<Rightarrow> error + string" where
  "db_loop w [] columns_str = Inr columns_str"
| "db_loop w (db # rest) columns_str =
     (case get_tables w db of
        Inl m \<Rightarrow> Inl (ServiceError m)
      | Inr response \<Rightarrow>
          (case table_loop (TableList response) columns_str of
             Inl e \<Rightarrow> Inl e
           | Inr columns_str' \<Rightarrow> db_loop w rest columns_str'))"

text \<open>
  The function: the header is assigned, then \<^verbatim>\<open>glue_client = boto3.client('glue')\<close>
  is built (which can raise), then the loops run.
\<close>

definition parse_catalog :: "world \<Rightarrow> notebook \<Rightarrow> error + string" where
  "parse_catalog w s =
     (let columns_str = ''database|table|column_name'' in
      case boto3_client w ''glue'' of
        Inl m \<Rightarrow> Inl (ServiceError m)
      | Inr glue_client \<Rightarrow> db_loop w (gdc s) columns_str)"






subsection \<open>The catalog string as the specification words it\<close>

text \<open>
  A catalog entry is a triple (database name, table name, column name), flattened to a
  pipe-delimited line; the catalog string is the header followed by one line per entry.
\<close>

definition catalog_line :: "string \<times> string \<times> string \<Rightarrow> string" where
  "catalog_line e = (case e of (d, t, c) \<Rightarrow> d @ ''|'' @ t @ ''|'' @ c)"

definition catalog_lines :: "(string \<times> string \<times> string) list \<Rightarrow> string" where
  "catalog_lines entries = concat (map (\<lambda>e. nl @ catalog_line e) entries)"

definition catalog_string :: "(string \<times> string \<times> string) list \<Rightarrow> string" where
  "catalog_string entries = ''database|table|column_name'' @ catalog_lines entries"

text \<open>
  The lines of a string, as Python's \<^verbatim>\<open>text.split('\n')\<close> gives them: the runs
  between line breaks, in order.
\<close>

fun split_lines :: "string \<Rightarrow> string list" where
  "split_lines [] = [] # []"
| "split_lines (c # cs) =
     (if c = CHR 0x0A then [] # split_lines cs
      else (case split_lines cs of
              [] \<Rightarrow> [c] # []
            | line # lines \<Rightarrow> (c # line) # lines))"

text \<open>
  The entries in discovery order: databases in the order of \<^verbatim>\<open>gdc\<close>, the tables of a
  database in the order of \<^verbatim>\<open>TableList\<close>, the columns of a table in the order of
  \<^verbatim>\<open>Columns\<close>. Nothing is removed or reordered.
\<close>

definition column_triples :: "table \<Rightarrow> column \<Rightarrow> (string \<times> string \<times> string) list" where
  "column_triples t c =
     (case t_DatabaseName t of
        None \<Rightarrow> []
      | Some d \<Rightarrow>
          (case t_Name t of
             None \<Rightarrow> []
           | Some n \<Rightarrow> (case c_Name c of None \<Rightarrow> [] | Some k \<Rightarrow> [(d, n, k)])))"

definition table_triples :: "table \<Rightarrow> (string \<times> string \<times> string) list" where
  "table_triples t =
     (case t_StorageDescriptor t of
        None \<Rightarrow> []
      | Some sd \<Rightarrow>
          (case sd_Columns sd of
             None \<Rightarrow> []
           | Some cols \<Rightarrow> concat (map (column_triples t) cols)))"

definition database_triples :: "world \<Rightarrow> string \<Rightarrow> (string \<times> string \<times> string) list" where
  "database_triples w db =
     (case get_tables w db of
        Inl m \<Rightarrow> []
      | Inr response \<Rightarrow> concat (map table_triples (TableList response)))"

definition discovered_triples :: "world \<Rightarrow> notebook \<Rightarrow> (string \<times> string \<times> string) list" where
  "discovered_triples w s = concat (map (database_triples w) (gdc s))"

text \<open>
  A table every lookup of \<^verbatim>\<open>parse_catalog\<close> succeeds on: it has a storage descriptor
  with a location and a column list; the location starts with \<^verbatim>\<open>s3\<close> or the
  parameters have a \<^verbatim>\<open>classification\<close>; and, when there is at least one column, the
  table has its database name and its name and every column has a name.
\<close>

definition has_classification :: "table \<Rightarrow> bool" where
  "has_classification t =
     (case t_Parameters t of
        None \<Rightarrow> False
      | Some parameters \<Rightarrow>
          (case parameters ''classification'' of None \<Rightarrow> False | Some c \<Rightarrow> True))"

definition column_named :: "column \<Rightarrow> bool" where
  "column_named c = (case c_Name c of None \<Rightarrow> False | Some k \<Rightarrow> True)"

definition table_named :: "table \<Rightarrow> bool" where
  "table_named t =
     (case t_DatabaseName t of
        None \<Rightarrow> False
      | Some d \<Rightarrow> (case t_Name t of None \<Rightarrow> False | Some n \<Rightarrow> True))"

definition located :: "table \<Rightarrow> bool" where
  "located t =
     (case t_StorageDescriptor t of
        None \<Rightarrow> False
      | Some sd \<Rightarrow>
          (case sd_Location sd of
             None \<Rightarrow> False
           | Some location \<Rightarrow>
               if startswith location ''s3'' then True else has_classification t))"

definition columns_ok :: "table \<Rightarrow> bool" where
  "columns_ok t =
     (case t_StorageDescriptor t of
        None \<Rightarrow> False
      | Some sd \<Rightarrow>
          (case sd_Columns sd of
             None \<Rightarrow> False
           | Some cols \<Rightarrow>
               if cols = [] then True else table_named t \<and> list_all column_named cols))"

definition table_ok :: "table \<Rightarrow> bool" where
  "table_ok t = (located t \<and> columns_ok t)"

definition database_ok :: "world \<Rightarrow> string \<Rightarrow> bool" where
  "database_ok w db =
     (case get_tables w db of
        Inl m \<Rightarrow> False
      | Inr response \<Rightarrow> list_all table_ok (TableList response))"

definition catalog_ok :: "world \<Rightarrow> notebook \<Rightarrow> bool" where
  "catalog_ok w s =
     (case boto3_client w ''glue'' of
        Inl m \<Rightarrow> False
      | Inr glue_client \<Rightarrow> list_all (database_ok w) (gdc s))"

text \<open>The keys that \<^verbatim>\<open>parse_catalog\<close> looks up in the dictionaries of a response.\<close>

definition catalog_keys :: "string list" where
  "catalog_keys =
     [''StorageDescriptor'', ''Location'', ''Parameters'', ''classification'', ''Columns'',
      ''DatabaseName'', ''Name'']"

subsection \<open>Code cell 7: starting the crawler and polling its state\<close>

text \<open>
  The \<^verbatim>\<open>while True\<close> loop. It may run forever, so it is a partial function: \<open>None\<close>
  is a loop that never ends. An exception of \<^verbatim>\<open>get_crawler\<close> leaves the loop with
  that exception; \<^verbatim>\<open>break\<close> leaves it normally.
\<close>

partial_function (option) crawler_poll ::
  "world \<Rightarrow> notebook \<Rightarrow> ((error + unit) \<times> notebook) option" where
  "crawler_poll w s =
     (case get_crawler w (glue_crawler_name s) (polls s) of
        Inl m \<Rightarrow> Some (Inl (ServiceError m), s\<lparr>polls := Suc (polls s)\<rparr>)
      | Inr response \<Rightarrow>
          (let status = State (Crawler response);
               s1 = py_print
                      (''Crawler '' @ quote @ glue_crawler_name s @ quote @ '' status: '' @ status)
                      (s\<lparr>polls := Suc (polls s)\<rparr>)
           in if status = ''STOPPING'' then Some (Inr (), s1)
              else crawler_poll w (s1\<lparr>slept := slept s1 + 10\<rparr>)))"

declare crawler_poll.simps [code]

text \<open>The body of the \<^verbatim>\<open>try\<close> block.\<close>

definition crawler_try :: "world \<Rightarrow> notebook \<Rightarrow> ((error + unit) \<times> notebook) option" where
  "crawler_try w s =
     (case start_crawler w (glue_crawler_name s) of
        Inl m \<Rightarrow> Some (Inl (ServiceError m), s)
      | Inr response \<Rightarrow>
          crawler_poll w
            (py_print
               ''Successfully started crawler. The crawler may take 2-5 mins to detect the schema.''
               s))"

text \<open>
  The cell from its first \<^verbatim>\<open>print\<close> on: the \<^verbatim>\<open>try\<close> block with its bare
  \<^verbatim>\<open>except:\<close> handler, which prints one line. (\<^verbatim>\<open>print\<close> with two arguments
  separates them by a space. The cell's first line, which builds the client object before
  the \<^verbatim>\<open>try\<close> statement, is not part of this definition.)
\<close>

definition cell7 :: "world \<Rightarrow> notebook \<Rightarrow> ((error + unit) \<times> notebook) option" where
  "cell7 w s =
     (let s0 = py_print (''About to start running the crawler: '' @ '' '' @ glue_crawler_name s) s in
      case crawler_try w s0 of
        None \<Rightarrow> None
      | Some (Inl e, s1) \<Rightarrow>
          Some (Inr (),
                py_print ''error in starting crawler. Check the logs for the error details.'' s1)
      | Some (Inr u, s1) \<Rightarrow> Some (Inr u, s1))"

subsection \<open>Concrete inputs\<close>

definition library_table :: table where
  "library_table =
     \<lparr>t_DatabaseName = Some ''librarydb'', t_Name = Some ''s3_library_data'',
      t_StorageDescriptor =
        Some \<lparr>sd_Location = Some ''s3://labfiles/library-data/'',
              sd_Columns = Some [\<lparr>c_Name = Some ''book_id''\<rparr>, \<lparr>c_Name = Some ''title''\<rparr>,
                                 \<lparr>c_Name = Some ''title''\<rparr>]\<rparr>,
      t_Parameters = Some [''classification'' \<mapsto> ''json'']\<rparr>"

text \<open>
  A view as Athena stores it in the Data Catalog: an empty location, and parameters
  without a \<^verbatim>\<open>classification\<close>.
\<close>

definition view_table :: table where
  "view_table =
     \<lparr>t_DatabaseName = Some ''librarydb'', t_Name = Some ''fantasy_books'',
      t_StorageDescriptor =
        Some \<lparr>sd_Location = Some [], sd_Columns = Some [\<lparr>c_Name = Some ''title''\<rparr>]\<rparr>,
      t_Parameters = Some [''presto_view'' \<mapsto> ''true'', ''comment'' \<mapsto> ''Presto View'']\<rparr>"


text \<open>
  A world whose model answers every prompt with \<open>completion\<close>, whose crawler reports
  \<^verbatim>\<open>RUNNING\<close> for the first \<open>k\<close> polls and \<^verbatim>\<open>STOPPING\<close> from then on, and whose
  database \<^verbatim>\<open>librarydb\<close> holds the tables \<open>ts\<close>.
\<close>

definition example_world :: "string \<Rightarrow> nat \<Rightarrow> table list \<Rightarrow> world" where
  "example_world completion k ts =
     \<lparr>boto3_client = (\<lambda>service. Inr ()),
      start_crawler = (\<lambda>name. Inr ()),
      get_crawler = (\<lambda>name n.
        Inr \<lparr>Crawler = \<lparr>State = (if n < k then ''RUNNING'' else ''STOPPING'')\<rparr>\<rparr>),
      get_tables = (\<lambda>db.
        if db = ''librarydb'' then Inr \<lparr>TableList = ts\<rparr> else Inl ''EntityNotFoundException''),
      llm_chain_run = (\<lambda>template query. Inr completion),
      db_chain_run = (\<lambda>db template query. Inr ''There are 100 books in the library.'')\<rparr>"

definition example_notebook :: notebook where
  "example_notebook =
     \<lparr>glue_crawler_name = ''library-crawler'', gdc = [''librarydb''],
      dbathena = SQLDatabase ''awsathena+rest://@athena.us-east-1.amazonaws.com:443/librarydb'',
      glue_catalog = ''database|table|column_name'',
      stdout = [], slept = 0, polls = 0\<rparr>"

section \<open>Properties\<close>

subsection \<open>Auxiliary facts\<close>

lemma py_in_sublist: "py_in sub str \<longleftrightarrow> sublist sub str"
  by (induction str) (simp_all add: sublist_Cons_right)

lemma py_print_fields:
  "glue_catalog (py_print l s) = glue_catalog s"
  "dbathena (py_print l s) = dbathena s"
  "glue_crawler_name (py_print l s) = glue_crawler_name s"
  "gdc (py_print l s) = gdc s"
  "slept (py_print l s) = slept s"
  "polls (py_print l s) = polls s"
  "stdout (py_print l s) = stdout s @ [l]"
  by (simp_all add: py_print_def)

text \<open>The three outcomes of \<^verbatim>\<open>identify_channel\<close> once the model has answered.\<close>

lemma identify_channel_cases:
  "identify_channel w query s =
     (case llm_chain_run w (prompt_template_titan (glue_catalog s)) query of
        Inl m \<Rightarrow> (Inl (ServiceError m), s)
      | Inr t \<Rightarrow>
          if sublist ''s3'' t then (Inr (''db'', dbathena s), py_print ''SET database to athena'' s)
          else if sublist ''api'' t then
            (Inl (UnboundLocalError ''db''), py_print ''SET database to weather api'' s)
          else (Inl (Exception
            ''User question cannot be answered by any of the channels mentioned in the catalog''), s))"
  by (simp add: identify_channel_def return_channel_db_def py_in_sublist split: sum.splits)









subsubsection \<open>The loops of \<^verbatim>\<open>parse_catalog\<close>\<close>

lemma catalog_lines_append:
  "catalog_lines (xs @ ys) = catalog_lines xs @ catalog_lines ys"
  by (simp add: catalog_lines_def)

lemma catalog_lines_Nil: "catalog_lines [] = []"
  by (simp add: catalog_lines_def)

lemma column_loop_Inr:
  "column_loop t cols acc = Inr str \<longleftrightarrow>
     (cols = [] \<or> table_named t \<and> list_all column_named cols)
     \<and> str = acc @ catalog_lines (concat (map (column_triples t) cols))"
proof (induction cols arbitrary: acc)
  case Nil
  show ?case by (auto simp add: catalog_lines_def)
next
  case (Cons c cols)
  show ?case
  proof (cases "table_named t \<and> column_named c")
    case True
    then obtain d n k where *: "t_DatabaseName t = Some d" "t_Name t = Some n" "c_Name c = Some k"
      by (auto simp add: table_named_def column_named_def split: option.splits)
    have "catalog_lines (column_triples t c) = nl @ d @ ''|'' @ n @ ''|'' @ k"
      by (simp add: * column_triples_def catalog_lines_def catalog_line_def)
    with * True show ?thesis
      by (auto simp add: Cons.IH catalog_lines_append)
  next
    case False
    then show ?thesis
      by (auto simp add: table_named_def column_named_def split: option.splits)
  qed
qed

lemma classification_of_Inr: "(\<exists>c. classification_of t = Inr c) \<longleftrightarrow> located t"
  by (simp add: classification_of_def located_def has_classification_def split: option.splits)

lemma columns_step_Inr:
  "(case columns_of t of Inl e \<Rightarrow> Inl e | Inr cols \<Rightarrow> column_loop t cols acc) = Inr str \<longleftrightarrow>
     columns_ok t \<and> str = acc @ catalog_lines (table_triples t)"
proof (cases "t_StorageDescriptor t")
  case None
  then show ?thesis by (simp add: columns_of_def columns_ok_def)
next
  case (Some sd)
  show ?thesis
  proof (cases "sd_Columns sd")
    case None
    with Some show ?thesis by (simp add: columns_of_def columns_ok_def)
  next
    case (Some cols)
    with \<open>t_StorageDescriptor t = Some sd\<close> show ?thesis
      by (simp add: columns_of_def columns_ok_def table_triples_def column_loop_Inr)
  qed
qed

lemma table_loop_Cons:
  "table_loop (t # ts) acc =
     (case classification_of t of
        Inl e \<Rightarrow> Inl e
      | Inr c \<Rightarrow>
          (case (case columns_of t of Inl e \<Rightarrow> Inl e | Inr cols \<Rightarrow> column_loop t cols acc) of
             Inl e \<Rightarrow> Inl e
           | Inr acc' \<Rightarrow> table_loop ts acc'))"
  by (simp split: sum.splits)

lemma table_loop_Inr:
  "table_loop ts acc = Inr str \<longleftrightarrow>
     list_all table_ok ts \<and> str = acc @ catalog_lines (concat (map table_triples ts))"
proof (induction ts arbitrary: acc)
  case Nil
  show ?case by (auto simp add: catalog_lines_Nil)
next
  case (Cons t ts)
  show ?case
  proof (cases "classification_of t")
    case (Inl e)
    with classification_of_Inr [of t] have "\<not> located t" by simp
    with Inl show ?thesis by (simp add: table_ok_def)
  next
    case c: (Inr c)
    with classification_of_Inr [of t] have loc: "located t" by auto
    show ?thesis
    proof (cases "case columns_of t of Inl e \<Rightarrow> Inl e | Inr cols \<Rightarrow> column_loop t cols acc")
      case (Inl e)
      with columns_step_Inr [of t acc "acc @ catalog_lines (table_triples t)"]
      have "\<not> columns_ok t" by simp
      moreover from Inl c have "table_loop (t # ts) acc = Inl e"
        by (simp only: table_loop_Cons sum.case)
      ultimately show ?thesis by (simp add: table_ok_def)
    next
      case (Inr acc')
      with columns_step_Inr [of t acc acc']
      have ok: "columns_ok t" and acc': "acc' = acc @ catalog_lines (table_triples t)" by simp_all
      from Inr c have "table_loop (t # ts) acc = table_loop ts acc'"
        by (simp only: table_loop_Cons sum.case)
      with ok loc acc' show ?thesis
        by (simp add: Cons.IH table_ok_def catalog_lines_append)
    qed
  qed
qed

lemma db_loop_Inr:
  "db_loop w dbs acc = Inr str \<longleftrightarrow>
     list_all (database_ok w) dbs
     \<and> str = acc @ catalog_lines (concat (map (database_triples w) dbs))"
proof (induction dbs arbitrary: acc)
  case Nil
  show ?case by (auto simp add: catalog_lines_Nil)
next
  case (Cons db dbs)
  show ?case
  proof (cases "get_tables w db")
    case (Inl m)
    then show ?thesis by (simp add: database_ok_def)
  next
    case (Inr response)
    show ?thesis
    proof (cases "table_loop (TableList response) acc")
      case (Inl e)
      with table_loop_Inr [of "TableList response" acc
          "acc @ catalog_lines (concat (map table_triples (TableList response)))"]
      have "\<not> list_all table_ok (TableList response)" by simp
      with Inl Inr show ?thesis by (simp add: database_ok_def)
    next
      case (Inr acc')
      with table_loop_Inr [of "TableList response" acc acc']
      have "list_all table_ok (TableList response)"
        and "acc' = acc @ catalog_lines (concat (map table_triples (TableList response)))"
        by simp_all
      with Inr \<open>get_tables w db = Inr response\<close> show ?thesis
        by (simp add: Cons.IH database_ok_def database_triples_def catalog_lines_append)
    qed
  qed
qed

lemma parse_catalog_Inr:
  "parse_catalog w s = Inr str \<longleftrightarrow>
     catalog_ok w s \<and> str = catalog_string (discovered_triples w s)"
  by (simp add: parse_catalog_def db_loop_Inr catalog_ok_def catalog_string_def
      discovered_triples_def split: sum.splits)

text \<open>Which exceptions the loops can end in.\<close>

lemma catalog_keys_mem:
  "''StorageDescriptor'' \<in> set catalog_keys"
  "''Location'' \<in> set catalog_keys"
  "''Parameters'' \<in> set catalog_keys"
  "''classification'' \<in> set catalog_keys"
  "''Columns'' \<in> set catalog_keys"
  "''DatabaseName'' \<in> set catalog_keys"
  "''Name'' \<in> set catalog_keys"
  by (simp_all add: catalog_keys_def)

lemma column_loop_Inl:
  "column_loop t cols acc = Inl e \<Longrightarrow> \<exists>k. e = KeyError k \<and> k \<in> set catalog_keys"
proof (induction cols arbitrary: acc)
  case Nil
  then show ?case by simp
next
  case (Cons c cols)
  show ?case
  proof (cases "t_DatabaseName t")
    case None
    with Cons.prems have "e = KeyError ''DatabaseName''" by simp
    then show ?thesis by (simp add: catalog_keys_mem)
  next
    case d: (Some d)
    show ?thesis
    proof (cases "t_Name t")
      case None
      with d Cons.prems have "e = KeyError ''Name''" by simp
      then show ?thesis by (simp add: catalog_keys_mem)
    next
      case n: (Some n)
      show ?thesis
      proof (cases "c_Name c")
        case None
        with d n Cons.prems have "e = KeyError ''Name''" by simp
        then show ?thesis by (simp add: catalog_keys_mem)
      next
        case (Some k)
        with d n Cons.prems
        have "column_loop t cols (acc @ nl @ d @ ''|'' @ n @ ''|'' @ k) = Inl e" by simp
        then show ?thesis by (rule Cons.IH)
      qed
    qed
  qed
qed

lemma classification_of_Inl:
  assumes "classification_of t = Inl e"
  shows "\<exists>k. e = KeyError k \<and> k \<in> set catalog_keys"
proof -
  from assms have "e = KeyError ''StorageDescriptor'' \<or> e = KeyError ''Location''
      \<or> e = KeyError ''Parameters'' \<or> e = KeyError ''classification''"
    by (auto simp add: classification_of_def split: option.splits if_splits)
  then show ?thesis by (auto simp add: catalog_keys_mem)
qed

lemma columns_of_Inl:
  assumes "columns_of t = Inl e"
  shows "\<exists>k. e = KeyError k \<and> k \<in> set catalog_keys"
proof -
  from assms have "e = KeyError ''StorageDescriptor'' \<or> e = KeyError ''Columns''"
    by (auto simp add: columns_of_def split: option.splits)
  then show ?thesis by (auto simp add: catalog_keys_mem)
qed

lemma table_loop_Inl:
  "table_loop ts acc = Inl e \<Longrightarrow> \<exists>k. e = KeyError k \<and> k \<in> set catalog_keys"
proof (induction ts arbitrary: acc)
  case Nil
  then show ?case by simp
next
  case (Cons t ts)
  show ?case
  proof (cases "classification_of t")
    case (Inl e')
    with Cons.prems have "e' = e" by simp
    with Inl show ?thesis by (simp add: classification_of_Inl)
  next
    case c: (Inr c)
    show ?thesis
    proof (cases "columns_of t")
      case (Inl e')
      with c Cons.prems have "e' = e" by simp
      with Inl show ?thesis by (simp add: columns_of_Inl)
    next
      case cols: (Inr cols)
      show ?thesis
      proof (cases "column_loop t cols acc")
        case (Inl e')
        with c cols Cons.prems have "e' = e" by simp
        with Inl show ?thesis by (simp add: column_loop_Inl)
      next
        case (Inr acc')
        with c cols Cons.prems have "table_loop ts acc' = Inl e" by simp
        then show ?thesis by (rule Cons.IH)
      qed
    qed
  qed
qed

lemma db_loop_Inl:
  "db_loop w dbs acc = Inl e \<Longrightarrow>
     (\<exists>m. e = ServiceError m \<and> (\<exists>db\<in>set dbs. get_tables w db = Inl m))
     \<or> (\<exists>k. e = KeyError k \<and> k \<in> set catalog_keys)"
proof (induction dbs arbitrary: acc)
  case Nil
  then show ?case by simp
next
  case (Cons db dbs)
  show ?case
  proof (cases "get_tables w db")
    case (Inl m)
    with Cons.prems have "e = ServiceError m" by simp
    with Inl show ?thesis by simp
  next
    case r: (Inr response)
    show ?thesis
    proof (cases "table_loop (TableList response) acc")
      case (Inl e')
      with r Cons.prems have "e' = e" by simp
      with Inl show ?thesis by (simp add: table_loop_Inl)
    next
      case (Inr acc')
      with r Cons.prems have "db_loop w dbs acc' = Inl e" by simp
      from Cons.IH [OF this] show ?thesis by auto
    qed
  qed
qed

lemma parse_catalog_Inl:
  "parse_catalog w s = Inl e \<Longrightarrow>
     (\<exists>m. e = ServiceError m
           \<and> (boto3_client w ''glue'' = Inl m \<or> (\<exists>db\<in>set (gdc s). get_tables w db = Inl m)))
     \<or> (\<exists>k. e = KeyError k \<and> k \<in> set catalog_keys)"
proof (cases "boto3_client w ''glue''")
  case (Inl m)
  moreover assume "parse_catalog w s = Inl e"
  ultimately have "e = ServiceError m" by (simp add: parse_catalog_def)
  with Inl show ?thesis by simp
next
  case (Inr c)
  moreover assume "parse_catalog w s = Inl e"
  ultimately have "db_loop w (gdc s) ''database|table|column_name'' = Inl e"
    by (simp add: parse_catalog_def)
  from db_loop_Inl [OF this] show ?thesis by blast
qed

lemma split_lines_break:
  "CHR 0x0A \<notin> set a \<Longrightarrow> split_lines (a @ CHR 0x0A # rest) = a # split_lines rest"
  by (induction a) (auto split: list.splits)

lemma split_lines_single: "CHR 0x0A \<notin> set a \<Longrightarrow> split_lines a = [a]"
  by (induction a) (auto split: list.splits)

lemma split_lines_catalog:
  "CHR 0x0A \<notin> set a \<Longrightarrow> list_all (\<lambda>e. CHR 0x0A \<notin> set (catalog_line e)) es \<Longrightarrow>
   split_lines (a @ catalog_lines es) = a # map catalog_line es"
proof (induction es arbitrary: a)
  case Nil
  then show ?case by (simp add: catalog_lines_def split_lines_single)
next
  case (Cons e es)
  have "catalog_lines (e # es) = CHR 0x0A # (catalog_line e @ catalog_lines es)"
    by (simp add: catalog_lines_def nl_def)
  with Cons show ?case
    by (simp add: split_lines_break)
qed

subsubsection \<open>The polling loop\<close>

text \<open>
  What is known when the loop has ended, in either way: it made at least one poll, every
  poll but the last found a state other than \<^verbatim>\<open>STOPPING\<close> and was followed by one
  sleep of 10 seconds, and the last poll either raised or found \<^verbatim>\<open>STOPPING\<close>.
\<close>

lemma crawler_poll_exit:
  assumes "crawler_poll w s = Some y"
  shows "polls s < polls (snd y)
    \<and> glue_crawler_name (snd y) = glue_crawler_name s
    \<and> slept (snd y) = slept s + 10 * (polls (snd y) - Suc (polls s))
    \<and> (\<forall>n. polls s \<le> n \<and> Suc n < polls (snd y) \<longrightarrow>
          (\<exists>resp. get_crawler w (glue_crawler_name s) n = Inr resp
                  \<and> State (Crawler resp) \<noteq> ''STOPPING''))
    \<and> (case fst y of
          Inl e \<Rightarrow> \<exists>m. get_crawler w (glue_crawler_name s) (polls (snd y) - 1) = Inl m
                       \<and> e = ServiceError m
        | Inr u \<Rightarrow> \<exists>resp. get_crawler w (glue_crawler_name s) (polls (snd y) - 1) = Inr resp
                       \<and> State (Crawler resp) = ''STOPPING'')"
proof (induction rule: crawler_poll.raw_induct [OF _ assms])
  case (1 cp w s y)
  note IH = "1"(1) and body = "1"(2)
  show ?case
  proof (cases "get_crawler w (glue_crawler_name s) (polls s)")
    case (Inl m)
    with body have "y = (Inl (ServiceError m), s\<lparr>polls := Suc (polls s)\<rparr>)" by simp
    with Inl show ?thesis by auto
  next
    case (Inr resp)
    show ?thesis
    proof (cases "State (Crawler resp) = ''STOPPING''")
      case True
      with body Inr have "y = (Inr (), py_print
          (''Crawler '' @ quote @ glue_crawler_name s @ quote @ '' status: '' @ State (Crawler resp))
          (s\<lparr>polls := Suc (polls s)\<rparr>))"
        by (simp add: Let_def)
      with Inr True show ?thesis by (auto simp add: py_print_fields)
    next
      case False
      define s2 where "s2 = (py_print
          (''Crawler '' @ quote @ glue_crawler_name s @ quote @ '' status: '' @ State (Crawler resp))
          (s\<lparr>polls := Suc (polls s)\<rparr>))\<lparr>slept := slept s + 10\<rparr>"
      have s2: "polls s2 = Suc (polls s)" "glue_crawler_name s2 = glue_crawler_name s"
        "slept s2 = slept s + 10"
        by (simp_all add: s2_def py_print_fields)
      from body Inr False have "cp w s2 = Some y"
        by (simp add: Let_def s2_def py_print_fields)
      from IH [OF this] have
        a: "polls s2 < polls (snd y)" and
        b: "glue_crawler_name (snd y) = glue_crawler_name s2" and
        c: "slept (snd y) = slept s2 + 10 * (polls (snd y) - Suc (polls s2))" and
        d: "\<forall>n. polls s2 \<le> n \<and> Suc n < polls (snd y) \<longrightarrow>
          (\<exists>resp. get_crawler w (glue_crawler_name s2) n = Inr resp
                  \<and> State (Crawler resp) \<noteq> ''STOPPING'')" and
        e: "(case fst y of
          Inl e \<Rightarrow> \<exists>m. get_crawler w (glue_crawler_name s2) (polls (snd y) - 1) = Inl m
                       \<and> e = ServiceError m
        | Inr u \<Rightarrow> \<exists>resp. get_crawler w (glue_crawler_name s2) (polls (snd y) - 1) = Inr resp
                       \<and> State (Crawler resp) = ''STOPPING'')"
        by blast+
      have "\<exists>r. get_crawler w (glue_crawler_name s) n = Inr r \<and> State (Crawler r) \<noteq> ''STOPPING''"
        if "polls s \<le> n" "Suc n < polls (snd y)" for n
      proof (cases "n = polls s")
        case True
        with Inr False show ?thesis by simp
      next
        case False
        with that have "polls s2 \<le> n" by (simp add: s2)
        with d that show ?thesis by (simp add: s2)
      qed
      moreover from a c have "slept (snd y) = slept s + 10 * (polls (snd y) - Suc (polls s))"
        by (simp add: s2)
      ultimately show ?thesis using a b e [unfolded s2(2)] by (simp add: s2)
    qed
  qed
qed

lemma crawler_poll_diverges:
  assumes "\<forall>n\<ge>polls s. \<exists>resp. get_crawler w (glue_crawler_name s) n = Inr resp
                  \<and> State (Crawler resp) \<noteq> ''STOPPING''"
  shows "crawler_poll w s = None"
proof (rule ccontr)
  assume "crawler_poll w s \<noteq> None"
  then obtain y where y: "crawler_poll w s = Some y" by auto
  from crawler_poll_exit [OF y] have lt: "polls s < polls (snd y)" by simp
  then have "polls s \<le> polls (snd y) - 1" by simp
  with assms obtain resp where
    r: "get_crawler w (glue_crawler_name s) (polls (snd y) - 1) = Inr resp"
       "State (Crawler resp) \<noteq> ''STOPPING''"
    by blast
  with crawler_poll_exit [OF y] show False
    by (cases "fst y") simp_all
qed

lemma crawler_poll_terminates:
  assumes "polls s \<le> k"
    and "\<forall>resp. get_crawler w (glue_crawler_name s) k = Inr resp
           \<longrightarrow> State (Crawler resp) = ''STOPPING''"
  shows "\<exists>y. crawler_poll w s = Some y"
  using assms
proof (induction "k - polls s" arbitrary: s)
  case 0
  then have k: "k = polls s" by simp
  show ?case
  proof (cases "get_crawler w (glue_crawler_name s) (polls s)")
    case (Inl m)
    then show ?thesis by (subst crawler_poll.simps) simp
  next
    case (Inr resp)
    with "0.prems"(2) k have "State (Crawler resp) = ''STOPPING''" by simp
    with Inr show ?thesis by (subst crawler_poll.simps) (simp add: Let_def)
  qed
next
  case (Suc d)
  show ?case
  proof (cases "get_crawler w (glue_crawler_name s) (polls s)")
    case (Inl m)
    then show ?thesis by (subst crawler_poll.simps) simp
  next
    case (Inr resp)
    show ?thesis
    proof (cases "State (Crawler resp) = ''STOPPING''")
      case True
      with Inr show ?thesis by (subst crawler_poll.simps) (simp add: Let_def)
    next
      case False
      define s2 where "s2 = (py_print
          (''Crawler '' @ quote @ glue_crawler_name s @ quote @ '' status: '' @ State (Crawler resp))
          (s\<lparr>polls := Suc (polls s)\<rparr>))\<lparr>slept := slept s + 10\<rparr>"
      have s2: "polls s2 = Suc (polls s)" "glue_crawler_name s2 = glue_crawler_name s"
        by (simp_all add: s2_def py_print_fields)
      from Inr False have step: "crawler_poll w s = crawler_poll w s2"
        by (subst crawler_poll.simps) (simp add: Let_def s2_def py_print_fields)
      from Suc.hyps(2) have "d = k - polls s2" by (simp add: s2)
      moreover from Suc.hyps(2) have "polls s2 \<le> k" by (simp add: s2)
      moreover from Suc.prems(2) have "\<forall>resp. get_crawler w (glue_crawler_name s2) k = Inr resp
           \<longrightarrow> State (Crawler resp) = ''STOPPING''" by (simp add: s2)
      ultimately have "\<exists>y. crawler_poll w s2 = Some y" by (rule Suc.hyps(1))
      with step show ?thesis by simp
    qed
  qed
qed

subsection \<open>Channel routing\<close>

text \<open>
  C1. Whenever the completion of the model contains \<^verbatim>\<open>s3\<close>, \<^verbatim>\<open>identify_channel\<close>
  returns the channel \<^verbatim>\<open>db\<close> together with the Athena handle \<^verbatim>\<open>dbathena\<close>, whatever
  else the completion contains (the test for \<^verbatim>\<open>s3\<close> comes first, so a completion that
  also contains \<^verbatim>\<open>api\<close> is routed to the warehouse too). Its only effect is one printed
  line.
\<close>

theorem identify_channel_s3:
  assumes "llm_chain_run w (prompt_template_titan (glue_catalog s)) query = Inr generated_texts"
    and "sublist ''s3'' generated_texts"
  shows "identify_channel w query s =
           (Inr (''db'', dbathena s), py_print ''SET database to athena'' s)"
  using assms by (simp add: identify_channel_cases)

theorem identify_channel_s3_witness:
  "llm_chain_run (example_world ''SELECT title FROM s3_library_data, api_calls'' 0 [])
       (prompt_template_titan (glue_catalog example_notebook)) ''Which titles are there?''
     = Inr ''SELECT title FROM s3_library_data, api_calls''
   \<and> sublist ''s3'' ''SELECT title FROM s3_library_data, api_calls''
   \<and> sublist ''api'' ''SELECT title FROM s3_library_data, api_calls''
   \<and> identify_channel (example_world ''SELECT title FROM s3_library_data, api_calls'' 0 [])
         ''Which titles are there?'' example_notebook
       = (Inr (''db'', dbathena example_notebook),
          py_print ''SET database to athena'' example_notebook)"
proof -
  have h1: "llm_chain_run (example_world ''SELECT title FROM s3_library_data, api_calls'' 0 [])
       (prompt_template_titan (glue_catalog example_notebook)) ''Which titles are there?''
     = Inr ''SELECT title FROM s3_library_data, api_calls''"
    by (simp add: example_world_def)
  have h2: "sublist ''s3'' ''SELECT title FROM s3_library_data, api_calls''"
    by (simp add: py_in_sublist [symmetric])
  have h3: "sublist ''api'' ''SELECT title FROM s3_library_data, api_calls''"
    by (simp add: py_in_sublist [symmetric])
  from identify_channel_s3 [OF h1 h2] h1 h2 h3 show ?thesis by simp
qed

text \<open>
  C2. A completion that contains \<^verbatim>\<open>api\<close> and not \<^verbatim>\<open>s3\<close> should make
  \<^verbatim>\<open>identify_channel\<close> return the channel \<^verbatim>\<open>api\<close>. It does not: on the completion
  \<^verbatim>\<open>call the weather api\<close> the function prints that it selected the weather API and then
  raises \<^verbatim>\<open>UnboundLocalError\<close> for \<^verbatim>\<open>db\<close> at its \<^verbatim>\<open>return\<close> statement.
\<close>

theorem identify_channel_api_unbound:
  "identify_channel (example_world ''call the weather api'' 0 [])
       ''What is the weather in Seattle?'' example_notebook
     = (Inl (UnboundLocalError ''db''),
        py_print ''SET database to weather api'' example_notebook)"
  by (simp add: identify_channel_def return_channel_db_def example_world_def)

text \<open>
  C3. Whenever the completion contains neither \<^verbatim>\<open>s3\<close> nor \<^verbatim>\<open>api\<close>,
  \<^verbatim>\<open>identify_channel\<close> raises the plain \<^verbatim>\<open>Exception\<close> with the fixed message
  \<^verbatim>\<open>User question cannot be answered by any of the channels mentioned in the catalog\<close>;
  it returns no channel, prints nothing and changes nothing.
\<close>

theorem identify_channel_unmatched:
  assumes "llm_chain_run w (prompt_template_titan (glue_catalog s)) query = Inr generated_texts"
    and "\<not> sublist ''s3'' generated_texts"
    and "\<not> sublist ''api'' generated_texts"
  shows "identify_channel w query s =
           (Inl (Exception
              ''User question cannot be answered by any of the channels mentioned in the catalog''),
            s)"
  using assms by (simp add: identify_channel_cases)

theorem identify_channel_unmatched_witness:
  "llm_chain_run (example_world ''I do not know.'' 0 [])
       (prompt_template_titan (glue_catalog example_notebook)) ''Who wrote it?''
     = Inr ''I do not know.''
   \<and> \<not> sublist ''s3'' ''I do not know.''
   \<and> \<not> sublist ''api'' ''I do not know.''
   \<and> identify_channel (example_world ''I do not know.'' 0 []) ''Who wrote it?'' example_notebook
       = (Inl (Exception
            ''User question cannot be answered by any of the channels mentioned in the catalog''),
          example_notebook)"
proof -
  have h1: "llm_chain_run (example_world ''I do not know.'' 0 [])
       (prompt_template_titan (glue_catalog example_notebook)) ''Who wrote it?''
     = Inr ''I do not know.''"
    by (simp add: example_world_def)
  have h2: "\<not> sublist ''s3'' ''I do not know.''"
    by (simp add: py_in_sublist [symmetric])
  have h3: "\<not> sublist ''api'' ''I do not know.''"
    by (simp add: py_in_sublist [symmetric])
  from identify_channel_unmatched [OF h1 h2 h3] h1 h2 h3 show ?thesis by simp
qed

text \<open>
  C9. Whenever \<^verbatim>\<open>identify_channel\<close> returns normally, the channel it returns is
  \<^verbatim>\<open>db\<close> and the handle is \<^verbatim>\<open>dbathena\<close>. The \<^verbatim>\<open>api\<close> branch never returns
  normally: \<^verbatim>\<open>db\<close> is not assigned on that path, and \<^verbatim>\<open>return channel, db\<close> raises
  \<^verbatim>\<open>UnboundLocalError\<close>.
\<close>

theorem identify_channel_returns_only_db:
  "(identify_channel w query s = (Inr (channel, db), s')
      \<longrightarrow> channel = ''db'' \<and> db = dbathena s)
   \<and> (llm_chain_run w (prompt_template_titan (glue_catalog s)) query = Inr generated_texts
        \<and> \<not> sublist ''s3'' generated_texts \<and> sublist ''api'' generated_texts
      \<longrightarrow> identify_channel w query s
          = (Inl (UnboundLocalError ''db''), py_print ''SET database to weather api'' s))"
  by (auto simp add: identify_channel_cases split: sum.splits if_splits)

theorem identify_channel_returns_only_db_witness:
  "identify_channel (example_world ''SELECT title FROM s3_library_data'' 0 [])
       ''Which titles are there?'' example_notebook
     = (Inr (''db'', SQLDatabase ''awsathena+rest://@athena.us-east-1.amazonaws.com:443/librarydb''),
        py_print ''SET database to athena'' example_notebook)
   \<and> llm_chain_run (example_world ''use the weather api'' 0 [])
         (prompt_template_titan (glue_catalog example_notebook)) ''Will it rain?''
       = Inr ''use the weather api''
   \<and> \<not> sublist ''s3'' ''use the weather api''
   \<and> sublist ''api'' ''use the weather api''
   \<and> identify_channel (example_world ''use the weather api'' 0 []) ''Will it rain?''
         example_notebook
       = (Inl (UnboundLocalError ''db''),
          py_print ''SET database to weather api'' example_notebook)"
proof -
  have h1: "identify_channel (example_world ''SELECT title FROM s3_library_data'' 0 [])
       ''Which titles are there?'' example_notebook
     = (Inr (''db'', SQLDatabase ''awsathena+rest://@athena.us-east-1.amazonaws.com:443/librarydb''),
        py_print ''SET database to athena'' example_notebook)"
    by (simp add: identify_channel_def return_channel_db_def example_world_def
        example_notebook_def)
  have h2: "llm_chain_run (example_world ''use the weather api'' 0 [])
         (prompt_template_titan (glue_catalog example_notebook)) ''Will it rain?''
       = Inr ''use the weather api''"
    by (simp add: example_world_def)
  have h3: "\<not> sublist ''s3'' ''use the weather api''"
    by (simp add: py_in_sublist [symmetric])
  have h4: "sublist ''api'' ''use the weather api''"
    by (simp add: py_in_sublist [symmetric])
  from identify_channel_returns_only_db
         [where w = "example_world ''SELECT title FROM s3_library_data'' 0 []"
            and query = "''Which titles are there?''" and s = example_notebook
            and channel = "''db''"
            and db = "SQLDatabase ''awsathena+rest://@athena.us-east-1.amazonaws.com:443/librarydb''"
            and s' = "py_print ''SET database to athena'' example_notebook"]
       h1
  have c1: "SQLDatabase ''awsathena+rest://@athena.us-east-1.amazonaws.com:443/librarydb''
              = dbathena example_notebook"
    by blast
  from identify_channel_returns_only_db
         [where w = "example_world ''use the weather api'' 0 []"
            and query = "''Will it rain?''" and s = example_notebook
            and generated_texts = "''use the weather api''"]
       h2 h3 h4
  have c2: "identify_channel (example_world ''use the weather api'' 0 []) ''Will it rain?''
         example_notebook
       = (Inl (UnboundLocalError ''db''),
          py_print ''SET database to weather api'' example_notebook)"
    by blast
  from h1 h2 h3 h4 c1 c2 show ?thesis by simp
qed

subsection \<open>Query execution\<close>

text \<open>
  C4. On the channel that \<^verbatim>\<open>identify_channel\<close> selects, \<^verbatim>\<open>run_query\<close> should
  delegate to the SQL database chain for \<^verbatim>\<open>db\<close> and raise
  \<^verbatim>\<open>Exception('Unlisted channel. Check your unified catalog')\<close> for any other channel,
  \<^verbatim>\<open>api\<close> included. For \<^verbatim>\<open>api\<close> it does not: on the completion
  \<^verbatim>\<open>call the weather api\<close> the first line of \<^verbatim>\<open>run_query\<close> already raises
  \<^verbatim>\<open>UnboundLocalError\<close> for \<^verbatim>\<open>db\<close> inside \<^verbatim>\<open>identify_channel\<close>, and the
  \<^verbatim>\<open>else\<close> branch written for that channel is not reached.
\<close>

theorem run_query_api_unbound:
  "run_query (example_world ''call the weather api'' 0 [])
       ''What is the weather in Seattle?'' example_notebook
     = (Inl (UnboundLocalError ''db''),
        py_print ''SET database to weather api'' example_notebook)"
  by (simp add: run_query_def identify_channel_def return_channel_db_def example_world_def)

text \<open>
  C10. The branch of \<^verbatim>\<open>run_query\<close> that raises \<^verbatim>\<open>Unlisted channel\<close> is never
  taken: whenever \<^verbatim>\<open>identify_channel\<close> returns normally the channel is \<^verbatim>\<open>db\<close>, so
  \<^verbatim>\<open>run_query\<close> delegates to the SQL database chain; and no run of \<^verbatim>\<open>run_query\<close>
  ends in the exception of that branch.
\<close>

theorem unlisted_channel_unreachable:
  "(identify_channel w query s = (Inr (channel, db), s')
      \<longrightarrow> channel = ''db''
          \<and> run_query w query s
            = (case db_chain_run w db DEFAULT_TEMPLATE query of
                 Inl m \<Rightarrow> (Inl (ServiceError m), s')
               | Inr response \<Rightarrow> (Inr response, s')))
   \<and> fst (run_query w query s)
       \<noteq> Inl (Exception ''Unlisted channel. Check your unified catalog'')"
  by (auto simp add: identify_channel_cases run_query_def run_query_dispatch_def
      split: sum.splits if_splits)

theorem unlisted_channel_unreachable_witness:
  "identify_channel (example_world ''SELECT count(title) FROM s3_library_data'' 0 [])
       ''How many total books are there in the library?'' example_notebook
     = (Inr (''db'', dbathena example_notebook),
        py_print ''SET database to athena'' example_notebook)
   \<and> run_query (example_world ''SELECT count(title) FROM s3_library_data'' 0 [])
         ''How many total books are there in the library?'' example_notebook
       = (Inr ''There are 100 books in the library.'',
          py_print ''SET database to athena'' example_notebook)"
proof -
  let ?w = "example_world ''SELECT count(title) FROM s3_library_data'' 0 []"
  let ?q = "''How many total books are there in the library?''"
  let ?s1 = "py_print ''SET database to athena'' example_notebook"
  have h: "identify_channel ?w ?q example_notebook = (Inr (''db'', dbathena example_notebook), ?s1)"
    by (simp add: identify_channel_def return_channel_db_def example_world_def)
  from unlisted_channel_unreachable
         [where w = ?w and query = ?q and s = example_notebook and channel = "''db''"
            and db = "dbathena example_notebook" and s' = ?s1]
       h
  have "run_query ?w ?q example_notebook
          = (case db_chain_run ?w (dbathena example_notebook) DEFAULT_TEMPLATE ?q of
               Inl m \<Rightarrow> (Inl (ServiceError m), ?s1)
             | Inr response \<Rightarrow> (Inr response, ?s1))"
    by blast
  then have "run_query ?w ?q example_notebook = (Inr ''There are 100 books in the library.'', ?s1)"
    by (simp add: example_world_def)
  with h show ?thesis by simp
qed

subsection \<open>Catalog harvesting\<close>

text \<open>
  C5, as stated, fails: the catalog string is not returned for every catalog. A database that holds an Athena
  view next to the library table makes \<^verbatim>\<open>parse_catalog\<close> raise \<^verbatim>\<open>KeyError\<close>: the
  location of the view does not start with \<^verbatim>\<open>s3\<close> and its parameters have no
  \<^verbatim>\<open>classification\<close>.
\<close>

theorem parse_catalog_view_raises:
  "parse_catalog (example_world ''SELECT 1'' 0 [library_table, view_table]) example_notebook
     = Inl (KeyError ''classification'')"
  by (simp add: parse_catalog_def example_world_def example_notebook_def library_table_def
      view_table_def classification_of_def columns_of_def startswith_def)

text \<open>
  C5, amended. \<^verbatim>\<open>parse_catalog\<close> returns a string exactly when
  \<^verbatim>\<open>boto3.client('glue')\<close> builds the client and every lookup the loops make succeeds:
  \<^verbatim>\<open>get_tables\<close> answers for every database of \<^verbatim>\<open>gdc\<close>, and every table has a
  storage descriptor with a location and a column list, a location that starts with
  \<^verbatim>\<open>s3\<close> or else a \<^verbatim>\<open>classification\<close> parameter, and (when it has columns) a
  database name, a name, and a name for every column. The string it then returns is the
  header \<^verbatim>\<open>database|table|column_name\<close> followed, for every (database name, table name,
  column name) triple in discovery order, duplicates included, by a line break and
  \<^verbatim>\<open>database|table|column\<close>. When no name contains a line break, the lines of that string
  are the header and then one line per triple. In every other case it raises and returns no
  string, and the exception is either the one that \<^verbatim>\<open>boto3.client\<close> or
  \<^verbatim>\<open>get_tables\<close> (for a database of \<^verbatim>\<open>gdc\<close>) raised, or a \<^verbatim>\<open>KeyError\<close> for
  one of the keys \<^verbatim>\<open>StorageDescriptor\<close>, \<^verbatim>\<open>Location\<close>, \<^verbatim>\<open>Parameters\<close>,
  \<^verbatim>\<open>classification\<close>, \<^verbatim>\<open>Columns\<close>, \<^verbatim>\<open>DatabaseName\<close>, \<^verbatim>\<open>Name\<close>.
\<close>

theorem parse_catalog_entries:
  "(parse_catalog w s = Inr str
      \<longleftrightarrow> catalog_ok w s \<and> str = catalog_string (discovered_triples w s))
   \<and> (catalog_ok w s
        \<and> list_all (\<lambda>e. CHR 0x0A \<notin> set (catalog_line e)) (discovered_triples w s)
      \<longrightarrow> (\<exists>c. parse_catalog w s = Inr c
              \<and> split_lines c
                = ''database|table|column_name'' # map catalog_line (discovered_triples w s)))
   \<and> (\<not> catalog_ok w s \<longrightarrow> (\<exists>e. parse_catalog w s = Inl e))
   \<and> (parse_catalog w s = Inl e
      \<longrightarrow> (\<exists>m. e = ServiceError m
               \<and> (boto3_client w ''glue'' = Inl m
                  \<or> (\<exists>db\<in>set (gdc s). get_tables w db = Inl m)))
          \<or> (\<exists>k. e = KeyError k \<and> k \<in> set catalog_keys))"
proof (intro conjI impI)
  show "parse_catalog w s = Inr str
      \<longleftrightarrow> catalog_ok w s \<and> str = catalog_string (discovered_triples w s)"
    by (rule parse_catalog_Inr)
next
  assume a: "catalog_ok w s
        \<and> list_all (\<lambda>e. CHR 0x0A \<notin> set (catalog_line e)) (discovered_triples w s)"
  then have "parse_catalog w s = Inr (catalog_string (discovered_triples w s))"
    by (simp add: parse_catalog_Inr)
  moreover have "CHR 0x0A \<notin> set ''database|table|column_name''" by simp
  with a have "split_lines (catalog_string (discovered_triples w s))
                = ''database|table|column_name'' # map catalog_line (discovered_triples w s)"
    unfolding catalog_string_def by (intro split_lines_catalog) simp_all
  ultimately show "\<exists>c. parse_catalog w s = Inr c
              \<and> split_lines c
                = ''database|table|column_name'' # map catalog_line (discovered_triples w s)"
    by blast
next
  assume bad: "\<not> catalog_ok w s"
  show "\<exists>e. parse_catalog w s = Inl e"
  proof (cases "parse_catalog w s")
    case (Inl e)
    then show ?thesis by blast
  next
    case (Inr c)
    with parse_catalog_Inr [of w s c] bad show ?thesis by simp
  qed
next
  assume "parse_catalog w s = Inl e"
  then show "(\<exists>m. e = ServiceError m
               \<and> (boto3_client w ''glue'' = Inl m
                  \<or> (\<exists>db\<in>set (gdc s). get_tables w db = Inl m)))
          \<or> (\<exists>k. e = KeyError k \<and> k \<in> set catalog_keys)"
    by (rule parse_catalog_Inl)
qed

theorem parse_catalog_entries_witness:
  "catalog_ok (example_world ''SELECT 1'' 0 [library_table]) example_notebook
   \<and> discovered_triples (example_world ''SELECT 1'' 0 [library_table]) example_notebook
       = [(''librarydb'', ''s3_library_data'', ''book_id''),
          (''librarydb'', ''s3_library_data'', ''title''),
          (''librarydb'', ''s3_library_data'', ''title'')]
   \<and> parse_catalog (example_world ''SELECT 1'' 0 [library_table]) example_notebook
       = Inr (''database|table|column_name'' @ nl
              @ ''librarydb|s3_library_data|book_id'' @ nl
              @ ''librarydb|s3_library_data|title'' @ nl
              @ ''librarydb|s3_library_data|title'')
   \<and> (\<exists>c. parse_catalog (example_world ''SELECT 1'' 0 [library_table]) example_notebook = Inr c
          \<and> split_lines c
            = [''database|table|column_name'', ''librarydb|s3_library_data|book_id'',
               ''librarydb|s3_library_data|title'', ''librarydb|s3_library_data|title''])
   \<and> \<not> catalog_ok (example_world ''SELECT 1'' 0 [view_table]) example_notebook
   \<and> parse_catalog (example_world ''SELECT 1'' 0 [view_table]) example_notebook
       = Inl (KeyError ''classification'')
   \<and> ''classification'' \<in> set catalog_keys
   \<and> \<not> catalog_ok
          ((example_world ''SELECT 1'' 0 [library_table])
             \<lparr>boto3_client := (\<lambda>service. Inl ''NoRegionError'')\<rparr>)
          example_notebook
   \<and> (\<exists>e. parse_catalog
              ((example_world ''SELECT 1'' 0 [library_table])
                 \<lparr>boto3_client := (\<lambda>service. Inl ''NoRegionError'')\<rparr>)
              example_notebook = Inl e)
   \<and> parse_catalog
         ((example_world ''SELECT 1'' 0 [library_table])
            \<lparr>boto3_client := (\<lambda>service. Inl ''NoRegionError'')\<rparr>)
         example_notebook
       = Inl (ServiceError ''NoRegionError'')"
proof -
  let ?w = "example_world ''SELECT 1'' 0 [library_table]"
  let ?wv = "example_world ''SELECT 1'' 0 [view_table]"
  let ?wn = "?w\<lparr>boto3_client := (\<lambda>service. Inl ''NoRegionError'')\<rparr>"
  let ?es = "[(''librarydb'', ''s3_library_data'', ''book_id''),
              (''librarydb'', ''s3_library_data'', ''title''),
              (''librarydb'', ''s3_library_data'', ''title'')]"
  have h1: "catalog_ok ?w example_notebook"
    by (simp add: catalog_ok_def database_ok_def example_world_def example_notebook_def
        library_table_def table_ok_def located_def columns_ok_def startswith_def
        table_named_def column_named_def)
  have h2: "discovered_triples ?w example_notebook = ?es"
    by (simp add: discovered_triples_def database_triples_def example_world_def
        example_notebook_def library_table_def table_triples_def column_triples_def)
  have h3: "list_all (\<lambda>e. CHR 0x0A \<notin> set (catalog_line e))
              (discovered_triples ?w example_notebook)"
    by (simp add: h2 catalog_line_def)
  have h4: "\<not> catalog_ok ?wn example_notebook"
    by (simp add: catalog_ok_def)
  have h5: "parse_catalog ?wv example_notebook = Inl (KeyError ''classification'')"
    by (simp add: parse_catalog_def example_world_def example_notebook_def view_table_def
        classification_of_def columns_of_def startswith_def)
  have h6: "parse_catalog ?wn example_notebook = Inl (ServiceError ''NoRegionError'')"
    by (simp add: parse_catalog_def)
  from parse_catalog_entries
         [where w = ?w and s = example_notebook
            and str = "catalog_string (discovered_triples ?w example_notebook)"]
       h1
  have c1: "parse_catalog ?w example_notebook
              = Inr (catalog_string (discovered_triples ?w example_notebook))"
    by blast
  from parse_catalog_entries [where w = ?w and s = example_notebook] h1 h3
  have c2: "\<exists>c. parse_catalog ?w example_notebook = Inr c
              \<and> split_lines c
                = ''database|table|column_name''
                  # map catalog_line (discovered_triples ?w example_notebook)"
    by blast
  from parse_catalog_entries [where w = ?wn and s = example_notebook] h4
  have c3: "\<exists>e. parse_catalog ?wn example_notebook = Inl e"
    by blast
  from parse_catalog_entries
         [where w = ?wv and s = example_notebook and e = "KeyError ''classification''"]
       h5
  have c4: "''classification'' \<in> set catalog_keys"
    by simp
  from parse_catalog_entries
         [where w = ?wv and s = example_notebook
            and str = "catalog_string (discovered_triples ?wv example_notebook)"]
       h5
  have c5: "\<not> catalog_ok ?wv example_notebook"
    by simp
  from c1 have c1': "parse_catalog ?w example_notebook
       = Inr (''database|table|column_name'' @ nl
              @ ''librarydb|s3_library_data|book_id'' @ nl
              @ ''librarydb|s3_library_data|title'' @ nl
              @ ''librarydb|s3_library_data|title'')"
    by (simp add: h2 catalog_string_def catalog_lines_def catalog_line_def)
  from c2 have c2': "\<exists>c. parse_catalog ?w example_notebook = Inr c
          \<and> split_lines c
            = [''database|table|column_name'', ''librarydb|s3_library_data|book_id'',
               ''librarydb|s3_library_data|title'', ''librarydb|s3_library_data|title'']"
    by (simp add: h2 catalog_line_def)
  from h1 h2 c1' c2' c5 h5 c4 h4 c3 h6 show ?thesis by blast
qed

subsection \<open>The catalog string over a session\<close>




subsection \<open>The crawler\<close>

text \<open>
  C6. The polling loop has no timeout and no backoff. When every poll from the current one
  on answers with a state other than \<^verbatim>\<open>STOPPING\<close>, the loop never ends. When it ends
  normally, some poll \<open>k\<close> answered \<^verbatim>\<open>STOPPING\<close>, it was the last poll made, and the
  loop slept 10 seconds after each earlier poll and not otherwise. And when some poll
  answers \<^verbatim>\<open>STOPPING\<close>, the loop does end.
\<close>

theorem crawler_poll_no_timeout:
  "((\<forall>n\<ge>polls s. \<exists>resp. get_crawler w (glue_crawler_name s) n = Inr resp
             \<and> State (Crawler resp) \<noteq> ''STOPPING'')
      \<longrightarrow> crawler_poll w s = None)
   \<and> (crawler_poll w s = Some (Inr (), s')
      \<longrightarrow> (\<exists>k resp. polls s \<le> k \<and> get_crawler w (glue_crawler_name s) k = Inr resp
             \<and> State (Crawler resp) = ''STOPPING''
             \<and> polls s' = Suc k \<and> slept s' = slept s + 10 * (k - polls s)))
   \<and> ((\<exists>k resp. polls s \<le> k \<and> get_crawler w (glue_crawler_name s) k = Inr resp
             \<and> State (Crawler resp) = ''STOPPING'')
      \<longrightarrow> crawler_poll w s \<noteq> None)"
proof (intro conjI impI)
  assume "\<forall>n\<ge>polls s. \<exists>resp. get_crawler w (glue_crawler_name s) n = Inr resp
             \<and> State (Crawler resp) \<noteq> ''STOPPING''"
  then show "crawler_poll w s = None" by (rule crawler_poll_diverges)
next
  assume y: "crawler_poll w s = Some (Inr (), s')"
  from crawler_poll_exit [OF y] obtain resp where
    lt: "polls s < polls s'" and
    sl: "slept s' = slept s + 10 * (polls s' - Suc (polls s))" and
    r: "get_crawler w (glue_crawler_name s) (polls s' - 1) = Inr resp"
       "State (Crawler resp) = ''STOPPING''"
    by auto
  from lt have "polls s \<le> polls s' - 1" "polls s' = Suc (polls s' - 1)"
    "polls s' - Suc (polls s) = polls s' - 1 - polls s" by simp_all
  with sl r show "\<exists>k resp. polls s \<le> k \<and> get_crawler w (glue_crawler_name s) k = Inr resp
             \<and> State (Crawler resp) = ''STOPPING''
             \<and> polls s' = Suc k \<and> slept s' = slept s + 10 * (k - polls s)"
    by metis
next
  assume "\<exists>k resp. polls s \<le> k \<and> get_crawler w (glue_crawler_name s) k = Inr resp
             \<and> State (Crawler resp) = ''STOPPING''"
  then obtain k resp where "polls s \<le> k" "get_crawler w (glue_crawler_name s) k = Inr resp"
    "State (Crawler resp) = ''STOPPING''" by blast
  then have "\<exists>y. crawler_poll w s = Some y"
    by (intro crawler_poll_terminates [of s k]) simp_all
  then show "crawler_poll w s \<noteq> None" by auto
qed

theorem crawler_poll_no_timeout_witness:
  "(\<forall>n.
       \<exists>resp. get_crawler
                ((example_world ''SELECT 1'' 0 [])
                   \<lparr>get_crawler := (\<lambda>name n. Inr \<lparr>Crawler = \<lparr>State = ''RUNNING''\<rparr>\<rparr>)\<rparr>)
                (glue_crawler_name example_notebook) n = Inr resp
              \<and> State (Crawler resp) \<noteq> ''STOPPING'')
   \<and> crawler_poll
         ((example_world ''SELECT 1'' 0 [])
            \<lparr>get_crawler := (\<lambda>name n. Inr \<lparr>Crawler = \<lparr>State = ''RUNNING''\<rparr>\<rparr>)\<rparr>)
         example_notebook = None
   \<and> crawler_poll (example_world ''SELECT 1'' 2 []) example_notebook
       = Some (Inr (),
               example_notebook
                 \<lparr>stdout := [''Crawler '' @ quote @ ''library-crawler'' @ quote @ '' status: RUNNING'',
                             ''Crawler '' @ quote @ ''library-crawler'' @ quote @ '' status: RUNNING'',
                             ''Crawler '' @ quote @ ''library-crawler'' @ quote @ '' status: STOPPING''],
                  slept := 20, polls := 3\<rparr>)
   \<and> (\<exists>k resp. polls example_notebook \<le> k
         \<and> get_crawler (example_world ''SELECT 1'' 2 []) (glue_crawler_name example_notebook) k
           = Inr resp
         \<and> State (Crawler resp) = ''STOPPING''
         \<and> 3 = Suc k \<and> 20 = slept example_notebook + 10 * (k - polls example_notebook))
   \<and> crawler_poll (example_world ''SELECT 1'' 2 []) example_notebook \<noteq> None"
proof -
  let ?w0 = "(example_world ''SELECT 1'' 0 [])
               \<lparr>get_crawler := (\<lambda>name n. Inr \<lparr>Crawler = \<lparr>State = ''RUNNING''\<rparr>\<rparr>)\<rparr>"
  let ?w2 = "example_world ''SELECT 1'' 2 []"
  let ?s' = "example_notebook
               \<lparr>stdout := [''Crawler '' @ quote @ ''library-crawler'' @ quote @ '' status: RUNNING'',
                           ''Crawler '' @ quote @ ''library-crawler'' @ quote @ '' status: RUNNING'',
                           ''Crawler '' @ quote @ ''library-crawler'' @ quote @ '' status: STOPPING''],
                slept := 20, polls := 3\<rparr>"
  have h0: "\<forall>n. \<exists>resp. get_crawler ?w0 (glue_crawler_name example_notebook) n = Inr resp
              \<and> State (Crawler resp) \<noteq> ''STOPPING''"
    by simp
  then have h1: "\<forall>n\<ge>polls example_notebook.
       \<exists>resp. get_crawler ?w0 (glue_crawler_name example_notebook) n = Inr resp
              \<and> State (Crawler resp) \<noteq> ''STOPPING''"
    by blast
  have h2: "crawler_poll ?w2 example_notebook = Some (Inr (), ?s')"
    by (simp add: crawler_poll.simps example_world_def example_notebook_def py_print_def
        Let_def quote_def)
  have h3: "\<exists>k resp. polls example_notebook \<le> k
         \<and> get_crawler ?w2 (glue_crawler_name example_notebook) k = Inr resp
         \<and> State (Crawler resp) = ''STOPPING''"
    by (rule exI [of _ 2]) (simp add: example_world_def example_notebook_def)
  from crawler_poll_no_timeout [where w = ?w0 and s = example_notebook] h1
  have c1: "crawler_poll ?w0 example_notebook = None"
    by blast
  from crawler_poll_no_timeout [where w = ?w2 and s = example_notebook and s' = ?s'] h2
  have c2: "\<exists>k resp. polls example_notebook \<le> k
         \<and> get_crawler ?w2 (glue_crawler_name example_notebook) k = Inr resp
         \<and> State (Crawler resp) = ''STOPPING''
         \<and> polls ?s' = Suc k \<and> slept ?s' = slept example_notebook + 10 * (k - polls example_notebook)"
    by blast
  from crawler_poll_no_timeout [where w = ?w2 and s = example_notebook] h3
  have c3: "crawler_poll ?w2 example_notebook \<noteq> None"
    by blast
  from c2 have c2': "\<exists>k resp. polls example_notebook \<le> k
         \<and> get_crawler ?w2 (glue_crawler_name example_notebook) k = Inr resp
         \<and> State (Crawler resp) = ''STOPPING''
         \<and> 3 = Suc k \<and> 20 = slept example_notebook + 10 * (k - polls example_notebook)"
    by simp
  from h0 c1 h2 c2' c3 show ?thesis by blast
qed

text \<open>
  C7. No exception raised in the \<^verbatim>\<open>try\<close> block of code cell 7, by starting the
  crawler or by polling it, leaves the cell: whenever the cell ends, it ends normally, and
  when the block raises, the handler prints
  \<^verbatim>\<open>error in starting crawler. Check the logs for the error details.\<close> and does nothing
  else.
\<close>

theorem cell7_never_raises:
  "(cell7 w s = Some (r, s') \<longrightarrow> r = Inr ())
   \<and> (crawler_try w
          (py_print (''About to start running the crawler: '' @ '' '' @ glue_crawler_name s) s)
        = Some (Inl e, s_raised)
      \<longrightarrow> cell7 w s
          = Some (Inr (),
                  py_print ''error in starting crawler. Check the logs for the error details.'' s_raised))"
  by (auto simp add: cell7_def Let_def split: option.splits sum.splits prod.splits)

theorem cell7_never_raises_witness:
  "crawler_try
       ((example_world ''SELECT 1'' 0 [])
          \<lparr>start_crawler := (\<lambda>name. Inl ''CrawlerRunningException'')\<rparr>)
       (py_print (''About to start running the crawler: '' @ '' ''
                  @ glue_crawler_name example_notebook) example_notebook)
     = Some (Inl (ServiceError ''CrawlerRunningException''),
             py_print ''About to start running the crawler:  library-crawler'' example_notebook)
   \<and> cell7
         ((example_world ''SELECT 1'' 0 [])
            \<lparr>start_crawler := (\<lambda>name. Inl ''CrawlerRunningException'')\<rparr>)
         example_notebook
       = Some (Inr (),
               py_print ''error in starting crawler. Check the logs for the error details.''
                 (py_print ''About to start running the crawler:  library-crawler''
                    example_notebook))
   \<and> crawler_try
         ((example_world ''SELECT 1'' 0 [])
            \<lparr>get_crawler := (\<lambda>name n. Inl ''ThrottlingException'')\<rparr>)
         (py_print (''About to start running the crawler: '' @ '' ''
                    @ glue_crawler_name example_notebook) example_notebook)
       = Some (Inl (ServiceError ''ThrottlingException''),
               example_notebook
                 \<lparr>stdout := [''About to start running the crawler:  library-crawler'',
                             ''Successfully started crawler. The crawler may take 2-5 mins to detect the schema.''],
                  polls := 1\<rparr>)
   \<and> cell7
         ((example_world ''SELECT 1'' 0 [])
            \<lparr>get_crawler := (\<lambda>name n. Inl ''ThrottlingException'')\<rparr>)
         example_notebook
       = Some (Inr (),
               py_print ''error in starting crawler. Check the logs for the error details.''
                 (example_notebook
                    \<lparr>stdout := [''About to start running the crawler:  library-crawler'',
                                ''Successfully started crawler. The crawler may take 2-5 mins to detect the schema.''],
                     polls := 1\<rparr>))"
proof -
  let ?ws = "(example_world ''SELECT 1'' 0 [])
               \<lparr>start_crawler := (\<lambda>name. Inl ''CrawlerRunningException'')\<rparr>"
  let ?wp = "(example_world ''SELECT 1'' 0 [])
               \<lparr>get_crawler := (\<lambda>name n. Inl ''ThrottlingException'')\<rparr>"
  let ?s0 = "py_print (''About to start running the crawler: '' @ '' ''
                       @ glue_crawler_name example_notebook) example_notebook"
  let ?s1 = "py_print ''About to start running the crawler:  library-crawler'' example_notebook"
  let ?s2 = "example_notebook
               \<lparr>stdout := [''About to start running the crawler:  library-crawler'',
                           ''Successfully started crawler. The crawler may take 2-5 mins to detect the schema.''],
                polls := 1\<rparr>"
  have h1: "crawler_try ?ws ?s0 = Some (Inl (ServiceError ''CrawlerRunningException''), ?s1)"
    by (simp add: crawler_try_def example_world_def example_notebook_def py_print_def)
  have h2: "crawler_try ?wp ?s0 = Some (Inl (ServiceError ''ThrottlingException''), ?s2)"
    by (simp add: crawler_try_def crawler_poll.simps example_world_def example_notebook_def
        py_print_def)
  from cell7_never_raises
         [where w = ?ws and s = example_notebook
            and e = "ServiceError ''CrawlerRunningException''" and s_raised = ?s1]
       h1
  have c1: "cell7 ?ws example_notebook
              = Some (Inr (),
                  py_print ''error in starting crawler. Check the logs for the error details.'' ?s1)"
    by blast
  from cell7_never_raises
         [where w = ?wp and s = example_notebook
            and e = "ServiceError ''ThrottlingException''" and s_raised = ?s2]
       h2
  have c2: "cell7 ?wp example_notebook
              = Some (Inr (),
                  py_print ''error in starting crawler. Check the logs for the error details.'' ?s2)"
    by blast
  from h1 c1 h2 c2 show ?thesis by blast
qed

end
